theory Spec2Isabelle
  imports Main "HOL-Library.Word"
begin

section \<open>Unpacking of packed linear weights (LinearUnpackImpl.cpp)\<close>

text \<open>
  The four \<open>unpack()\<close> methods of \<open>LinearUnpackImpl.cpp\<close> over an explicit store of
  tensors. An \<open>at::Tensor\<close> is a handle: copying it copies the reference, and a
  default-constructed one refers to nothing. The store is a list of tensor cells, a
  handle is an index into it, and an allocation appends a cell, so that a fresh cell
  never aliases an older one.

  Floating-point numbers are kept as bit patterns (\<open>16 word\<close>, \<open>32 word\<close>,
  \<open>64 word\<close>); the widening conversions and the decoding routines of the kernel
  libraries are not part of the sources and are taken as parameters (\<open>kernels\<close>).
\<close>

subsection \<open>Tensors and the store\<close>

datatype error =
    ScalarTypeMismatch    \<comment> \<open>raised by \<open>data_ptr<T>()\<close>\<close>
  | NotQuantized          \<comment> \<open>raised by \<open>qscheme()\<close> on a tensor without quantizer\<close>
  | CheckFailed           \<comment> \<open>the \<open>TORCH_CHECK\<close> of \<open>PackedLinearWeightsQnnp::unpack\<close>\<close>
  | UndefinedBehaviour    \<comment> \<open>read of element 0 of an empty vector or buffer, dangling handle\<close>

text \<open>\<open>c10::QScheme\<close>: the source names two tags; every other tag is \<open>kOtherScheme\<close>.\<close>

datatype QScheme = kPerTensorAffine | kPerChannelAffine | kOtherScheme nat

datatype ScalarType = kChar | kQInt8 | kHalf | kFloat

datatype payload =
    CharData "8 word list"
  | QInt8Data "8 word list"
  | HalfData "16 word list"
  | FloatData "32 word list"

datatype Quantizer =
    PerTensorAffineQuantizer "64 word" "64 word"
  | PerChannelAffineQuantizer "64 word list" "64 word list" int

record TensorImpl =
  sizes :: "nat list"
  payload :: payload
  quantizer :: "Quantizer option"

datatype Tensor = Undefined | Ref nat

type_synonym heap = "TensorImpl list"

type_synonym unpacked = "Tensor \<times> Tensor option"

fun defined :: "Tensor \<Rightarrow> bool" where
  "defined Undefined = False"
| "defined (Ref a) = True"

fun deref :: "heap \<Rightarrow> Tensor \<Rightarrow> TensorImpl option" where
  "deref h Undefined = None"
| "deref h (Ref a) = (if a < length h then Some (h ! a) else None)"

definition alloc :: "TensorImpl \<Rightarrow> heap \<Rightarrow> Tensor \<times> heap" where
  "alloc t h = (Ref (length h), h @ [t])"

fun scalar_type :: "payload \<Rightarrow> ScalarType" where
  "scalar_type (CharData xs) = kChar"
| "scalar_type (QInt8Data xs) = kQInt8"
| "scalar_type (HalfData xs) = kHalf"
| "scalar_type (FloatData xs) = kFloat"

fun zeros :: "ScalarType \<Rightarrow> nat \<Rightarrow> payload" where
  "zeros kChar n = CharData (replicate n 0)"
| "zeros kQInt8 n = QInt8Data (replicate n 0)"
| "zeros kHalf n = HalfData (replicate n 0)"
| "zeros kFloat n = FloatData (replicate n 0)"

text \<open>
  Modelled from the spec: the allocation functions of the tensor runtime
  (\<open>at::empty\<close>, \<open>at::_empty_affine_quantized\<close>,
  \<open>at::_empty_per_channel_affine_quantized\<close>), which are not part of the sources.
  Each allocates a dense tensor of the given shape, tagged with the given quantization
  metadata. The contents are indeterminate until the decoding routine fills them; the
  model holds zeros there.
\<close>

definition at_empty :: "nat list \<Rightarrow> ScalarType \<Rightarrow> heap \<Rightarrow> Tensor \<times> heap" where
  "at_empty sz ty h =
     alloc \<lparr>sizes = sz, payload = zeros ty (prod_list sz), quantizer = None\<rparr> h"

definition at_empty_affine_quantized ::
  "nat list \<Rightarrow> ScalarType \<Rightarrow> 64 word \<Rightarrow> 64 word \<Rightarrow> heap \<Rightarrow> Tensor \<times> heap" where
  "at_empty_affine_quantized sz ty scale zero_point h =
     alloc \<lparr>sizes = sz, payload = zeros ty (prod_list sz),
            quantizer = Some (PerTensorAffineQuantizer scale zero_point)\<rparr> h"

definition at_empty_per_channel_affine_quantized ::
  "nat list \<Rightarrow> 64 word list \<Rightarrow> 64 word list \<Rightarrow> int \<Rightarrow> ScalarType \<Rightarrow> heap \<Rightarrow> Tensor \<times> heap" where
  "at_empty_per_channel_affine_quantized sz scales zero_points axis ty h =
     alloc \<lparr>sizes = sz, payload = zeros ty (prod_list sz),
            quantizer = Some (PerChannelAffineQuantizer scales zero_points axis)\<rparr> h"

text \<open>
  Modelled from the spec: \<open>Tensor::data_ptr<T>()\<close> of the tensor runtime, which is not
  part of the sources. The runtime type-tags its tensors: the typed pointer of a tensor
  of another element type, or of a tensor that was never allocated, is a fatal error
  surfaced to the caller. A quantized 8-bit tensor may also be read at its underlying
  type. The pointer is the address of the cell.
\<close>

fun data_ptr :: "ScalarType \<Rightarrow> Tensor \<Rightarrow> heap \<Rightarrow> error + nat" where
  "data_ptr ty Undefined h = Inl ScalarTypeMismatch"
| "data_ptr ty (Ref a) h =
     (if a < length h then
        (let st = scalar_type (payload (h ! a)) in
         if st = ty \<or> (st = kQInt8 \<and> ty = kChar) then Inr a else Inl ScalarTypeMismatch)
      else Inl UndefinedBehaviour)"

text \<open>\<open>Tensor::data_ptr()\<close> without a type: no check.\<close>

fun data_ptr_untyped :: "Tensor \<Rightarrow> heap \<Rightarrow> error + nat" where
  "data_ptr_untyped Undefined h = Inl UndefinedBehaviour"
| "data_ptr_untyped (Ref a) h = (if a < length h then Inr a else Inl UndefinedBehaviour)"

text \<open>Writing a decoded buffer through a raw pointer keeps the element type of the cell.\<close>

fun fill_int8 :: "payload \<Rightarrow> 8 word list \<Rightarrow> payload" where
  "fill_int8 (CharData xs) bs = CharData bs"
| "fill_int8 (QInt8Data xs) bs = QInt8Data bs"
| "fill_int8 p bs = p"

definition write_int8 :: "nat \<Rightarrow> 8 word list \<Rightarrow> heap \<Rightarrow> heap" where
  "write_int8 p bs h = h[p := (h ! p)\<lparr>payload := fill_int8 (payload (h ! p)) bs\<rparr>]"

fun fill_half :: "payload \<Rightarrow> 16 word list \<Rightarrow> payload" where
  "fill_half (HalfData xs) bs = HalfData bs"
| "fill_half p bs = p"

definition write_half :: "nat \<Rightarrow> 16 word list \<Rightarrow> heap \<Rightarrow> heap" where
  "write_half p bs h = h[p := (h ! p)\<lparr>payload := fill_half (payload (h ! p)) bs\<rparr>]"

text \<open>
  Modelled from the spec: \<open>Tensor::sub_\<close> with an integer scalar, which is not part of
  the sources: it subtracts the scalar from every element in place. On a signed 8-bit
  tensor the arithmetic is that of the element type, modulo \<open>2 ^ 8\<close>. The source
  applies it to an 8-bit tensor only.
\<close>

fun sub_payload :: "payload \<Rightarrow> int \<Rightarrow> payload" where
  "sub_payload (CharData xs) c = CharData (map (\<lambda>x. x - word_of_int c) xs)"
| "sub_payload (QInt8Data xs) c = QInt8Data (map (\<lambda>x. x - word_of_int c) xs)"
| "sub_payload p c = p"

fun sub_inplace :: "Tensor \<Rightarrow> int \<Rightarrow> heap \<Rightarrow> heap" where
  "sub_inplace Undefined c h = h"
| "sub_inplace (Ref a) c h = h[a := (h ! a)\<lparr>payload := sub_payload (payload (h ! a)) c\<rparr>]"

text \<open>
  Modelled from the spec: \<open>at::_make_per_tensor_quantized_tensor\<close>, which is not part
  of the sources: it wraps the integer buffer together with the single
  \<open>(scale, zero_point)\<close> pair as a per-tensor-quantized tensor (a new tensor of the
  same shape and the same bytes).
\<close>

fun toQIntType :: "payload \<Rightarrow> payload" where
  "toQIntType (CharData xs) = QInt8Data xs"
| "toQIntType p = p"

fun at_make_per_tensor_quantized_tensor ::
  "Tensor \<Rightarrow> 64 word \<Rightarrow> 64 word \<Rightarrow> heap \<Rightarrow> error + Tensor \<times> heap" where
  "at_make_per_tensor_quantized_tensor t scale zero_point h =
     (case deref h t of
        None \<Rightarrow> Inl UndefinedBehaviour
      | Some ti \<Rightarrow>
          Inr (alloc \<lparr>sizes = sizes ti, payload = toQIntType (payload ti),
                      quantizer = Some (PerTensorAffineQuantizer scale zero_point)\<rparr> h))"

text \<open>
  Modelled from the spec: \<open>Tensor::qscheme()\<close> of the tensor runtime, which is not
  part of the sources: the quantization-scheme tag of the tensor, that of its
  metadata. A tensor without metadata has none, and asking for it raises.
\<close>

fun qscheme_of :: "Quantizer \<Rightarrow> QScheme" where
  "qscheme_of (PerTensorAffineQuantizer s z) = kPerTensorAffine"
| "qscheme_of (PerChannelAffineQuantizer ss zs ax) = kPerChannelAffine"

definition qscheme :: "Tensor \<Rightarrow> heap \<Rightarrow> error + QScheme" where
  "qscheme t h =
     (case deref h t of
        None \<Rightarrow> Inl UndefinedBehaviour
      | Some ti \<Rightarrow>
          (case quantizer ti of None \<Rightarrow> Inl NotQuantized | Some q \<Rightarrow> Inr (qscheme_of q)))"

subsection \<open>Kernel libraries\<close>

text \<open>\<open>fbgemm::PackBMatrix<int8_t>\<close>: the recorded dimensions and the packed bytes.\<close>

record PackBMatrix =
  numRows :: nat
  numCols :: nat
  pmat :: "8 word list"

text \<open>
  \<open>fbgemm::PackedGemmMatrixFP16\<close>: the recorded dimensions and the element of the
  matrix that the buffer logically represents, by row and column.
\<close>

record PackedGemmMatrixFP16 =
  numRows_fp16 :: nat
  numCols_fp16 :: nat
  elem_fp16 :: "nat \<Rightarrow> nat \<Rightarrow> 16 word"

datatype matrix_op_t = NoTranspose | Transpose

text \<open>
  Modelled from the spec: the decoding routine \<open>PackedGemmMatrixFP16::unpack\<close> of the
  kernel library, which is not part of the sources. It fills the dense buffer in
  row-major order with the matrix the packed buffer represents or, when the transpose
  flag is passed, with its transpose.
\<close>

fun unpack_fp16 :: "PackedGemmMatrixFP16 \<Rightarrow> matrix_op_t \<Rightarrow> 16 word list" where
  "unpack_fp16 m NoTranspose =
     concat (map (\<lambda>r. map (\<lambda>c. elem_fp16 m r c) [0..<numCols_fp16 m]) [0..<numRows_fp16 m])"
| "unpack_fp16 m Transpose =
     concat (map (\<lambda>c. map (\<lambda>r. elem_fp16 m r c) [0..<numRows_fp16 m]) [0..<numCols_fp16 m])"

text \<open>
  The parts of the kernel libraries and of the numeric runtime that the sources call
  and do not define: the decoding routines of the two 8-bit backends, given by the
  bytes they write into the dense buffer, and the two widening conversions.
\<close>

record kernels =
  fbgemm_unpack :: "PackBMatrix \<Rightarrow> 8 word list"
  qnnp_unpackWeights :: "8 word list \<Rightarrow> 8 word list \<Rightarrow> 8 word list"
  float_to_double :: "32 word \<Rightarrow> 64 word"
  half_to_float :: "16 word \<Rightarrow> 32 word"

text \<open>
  Modelled from the spec: \<open>Tensor::to(at::kFloat)\<close> of the tensor runtime, which is
  not part of the sources: on a half tensor, a new tensor of the same shape with every
  element widened from 16 to 32 bits.
\<close>

fun to_kFloat_payload :: "kernels \<Rightarrow> payload \<Rightarrow> payload" where
  "to_kFloat_payload rt (HalfData xs) = FloatData (map (half_to_float rt) xs)"
| "to_kFloat_payload rt p = p"

definition to_kFloat :: "kernels \<Rightarrow> Tensor \<Rightarrow> heap \<Rightarrow> error + Tensor \<times> heap" where
  "to_kFloat rt t h =
     (case deref h t of
        None \<Rightarrow> Inl UndefinedBehaviour
      | Some ti \<Rightarrow>
          Inr (alloc \<lparr>sizes = sizes ti, payload = to_kFloat_payload rt (payload ti),
                      quantizer = quantizer ti\<rparr> h))"

subsection \<open>The packed weights\<close>

text \<open>\<open>PackedLinearWeight\<close> (fbgemm, 8 bit).\<close>

record PackedLinearWeight =
  w :: PackBMatrix
  bias_fbgemm :: "Tensor option"
  w_scale :: "32 word list"
  w_zp :: "32 word list"
  q_scheme :: QScheme

text \<open>
  \<open>PackedLinearWeightsQnnp\<close> (QNNPACK): \<open>w_scales\<close> is a tensor of floats,
  \<open>w_zero_points\<close> a vector of bytes, \<open>w_qnnp\<close> the packed bytes.
\<close>

record PackedLinearWeightsQnnp =
  w_qnnp :: "8 word list"
  orig_weight :: Tensor
  bias_qnnp :: "Tensor option"
  w_scales :: Tensor
  w_zero_points :: "8 word list"
  weight_sizes :: "nat list"

text \<open>\<open>PackedLinearWeightFp16\<close> (fbgemm, half precision).\<close>

record PackedLinearWeightFp16 =
  w_fp16 :: PackedGemmMatrixFP16
  bias_fp16 :: "Tensor option"

text \<open>\<open>PackedLinearWeightsOnednn\<close>.\<close>

record PackedLinearWeightsOnednn =
  orig_weight_onednn :: Tensor
  orig_bias_onednn :: "Tensor option"

subsection \<open>The four unpack methods\<close>

text \<open>
  \<open>PackedLinearWeight::unpack\<close>. The two arms of the source allocate
  \<open>weight_origin\<close>; with any other scheme it stays the default-constructed tensor.
\<close>

definition PackedLinearWeight_unpack ::
  "kernels \<Rightarrow> PackedLinearWeight \<Rightarrow> heap \<Rightarrow> error + unpacked \<times> heap" where
  "PackedLinearWeight_unpack rt pw h =
     (let packB = w pw;
          N = numCols packB;
          K = numRows packB;
          allocated =
            (if q_scheme pw = kPerTensorAffine then
               (case (w_scale pw, w_zp pw) of
                  (s # _, z # _) \<Rightarrow>
                    Inr (at_empty_affine_quantized [N, K] kQInt8
                           (float_to_double rt s) (scast z) h)
                | _ \<Rightarrow> Inl UndefinedBehaviour)
             else if q_scheme pw = kPerChannelAffine then
               (let scales = w_scale pw;
                    zero_points = w_zp pw
                in Inr (at_empty_per_channel_affine_quantized [N, K]
                          (map (float_to_double rt) scales)
                          (map scast zero_points)
                          0 kQInt8 h))
             else Inr (Undefined, h))
      in case allocated of
           Inl e \<Rightarrow> Inl e
         | Inr (weight_origin, h1) \<Rightarrow>
             (case data_ptr kQInt8 weight_origin h1 of
                Inl e \<Rightarrow> Inl e
              | Inr weight_ptr_int8 \<Rightarrow>
                  Inr ((weight_origin, bias_fbgemm pw),
                       write_int8 weight_ptr_int8 (fbgemm_unpack rt packB) h1)))"

text \<open>Element 0 of the buffer behind a float pointer.\<close>

fun read_float0 :: "nat \<Rightarrow> heap \<Rightarrow> 32 word option" where
  "read_float0 p h =
     (case payload (h ! p) of FloatData (s # _) \<Rightarrow> Some s | _ \<Rightarrow> None)"

text \<open>\<open>PackedLinearWeightsQnnp::unpack\<close>.\<close>

definition PackedLinearWeightsQnnp_unpack ::
  "kernels \<Rightarrow> PackedLinearWeightsQnnp \<Rightarrow> heap \<Rightarrow> error + unpacked \<times> heap" where
  "PackedLinearWeightsQnnp_unpack rt pw h =
     (if defined (orig_weight pw) then Inr ((orig_weight pw, bias_qnnp pw), h)
      else
        (case data_ptr kFloat (w_scales pw) h of
           Inl e \<Rightarrow> Inl e
         | Inr weight_scales_data \<Rightarrow>
             (let (weight_origin, h1) = at_empty (weight_sizes pw) kChar h
              in case data_ptr kChar weight_origin h1 of
                   Inl e \<Rightarrow> Inl e
                 | Inr weight_ptr_int8 \<Rightarrow>
                     (let h2 = write_int8 weight_ptr_int8
                                 (qnnp_unpackWeights rt (w_qnnp pw) (w_zero_points pw)) h1;
                          h3 = sub_inplace weight_origin 128 h2
                      in case (read_float0 weight_scales_data h3, w_zero_points pw) of
                           (Some s, z # _) \<Rightarrow>
                             (case at_make_per_tensor_quantized_tensor weight_origin
                                     (float_to_double rt s) (ucast z) h3 of
                                Inl e \<Rightarrow> Inl e
                              | Inr (original_quantized_tensor, h4) \<Rightarrow>
                                  (case qscheme original_quantized_tensor h4 of
                                     Inl e \<Rightarrow> Inl e
                                   | Inr q \<Rightarrow>
                                       if q = kPerTensorAffine
                                       then Inr ((original_quantized_tensor, bias_qnnp pw), h4)
                                       else Inl CheckFailed))
                         | _ \<Rightarrow> Inl UndefinedBehaviour))))"

text \<open>\<open>PackedLinearWeightFp16::unpack\<close>.\<close>

definition PackedLinearWeightFp16_unpack ::
  "kernels \<Rightarrow> PackedLinearWeightFp16 \<Rightarrow> heap \<Rightarrow> error + unpacked \<times> heap" where
  "PackedLinearWeightFp16_unpack rt pw h =
     (let packed_weight_ptr = w_fp16 pw;
          nrows = numRows_fp16 packed_weight_ptr;
          ncols = numCols_fp16 packed_weight_ptr;
          (unpacked_weight, h1) = at_empty [ncols, nrows] kHalf h
      in case data_ptr_untyped unpacked_weight h1 of
           Inl e \<Rightarrow> Inl e
         | Inr p \<Rightarrow>
             (let h2 = write_half p (unpack_fp16 packed_weight_ptr Transpose) h1
              in case to_kFloat rt unpacked_weight h2 of
                   Inl e \<Rightarrow> Inl e
                 | Inr (t, h3) \<Rightarrow> Inr ((t, bias_fp16 pw), h3)))"

text \<open>\<open>PackedLinearWeightsOnednn::unpack\<close>.\<close>

definition PackedLinearWeightsOnednn_unpack ::
  "PackedLinearWeightsOnednn \<Rightarrow> heap \<Rightarrow> unpacked \<times> heap" where
  "PackedLinearWeightsOnednn_unpack pw h = ((orig_weight_onednn pw, orig_bias_onednn pw), h)"

subsection \<open>Two calls in succession\<close>

text \<open>
  \<open>preserved h h'\<close>: every cell of the store \<open>h\<close> is still there, unchanged, in \<open>h'\<close>.
  The packed weight's tensors (cached weight, scales, bias) are cells of the store
  before the call; its other fields are passed by value, since no method assigns a
  member.
\<close>

definition preserved :: "heap \<Rightarrow> heap \<Rightarrow> bool" where
  "preserved h h' = (take (length h) h' = h)"

text \<open>
  \<open>idempotent_at f h\<close>: when the call \<open>f\<close> returns from the store \<open>h\<close>, a second call
  from the store it leaves returns too, with the same bias handle and a tensor equal to
  the first in shape, elements and metadata; the first result is not disturbed by the
  second call, and neither call changes a cell that existed before it. When the call
  raises there is no result to compare.
\<close>

definition idempotent_at :: "(heap \<Rightarrow> error + unpacked \<times> heap) \<Rightarrow> heap \<Rightarrow> bool" where
  "idempotent_at f h =
     (case f h of
        Inl e \<Rightarrow> True
      | Inr ((t1, b1), h1) \<Rightarrow>
          (case f h1 of
             Inl e \<Rightarrow> False
           | Inr ((t2, b2), h2) \<Rightarrow>
               deref h2 t2 = deref h1 t1 \<and> deref h2 t1 = deref h1 t1 \<and> b2 = b1 \<and>
               preserved h h1 \<and> preserved h1 h2))"

subsection \<open>Example inputs\<close>

text \<open>
  Stand-ins for the kernel libraries: the decoding routines write the packed bytes as
  they are, the widening conversions extend the bit pattern.
\<close>

definition ex_kernels :: kernels where
  "ex_kernels = \<lparr>fbgemm_unpack = pmat, qnnp_unpackWeights = (\<lambda>packed zps. packed),
     float_to_double = ucast, half_to_float = ucast\<rparr>"

definition ex_fbgemm :: "QScheme \<Rightarrow> PackedLinearWeight" where
  "ex_fbgemm q = \<lparr>w = \<lparr>numRows = 3, numCols = 2, pmat = [1, 2, 3, 4, 5, 6]\<rparr>,
     bias_fbgemm = None, w_scale = [5], w_zp = [0], q_scheme = q\<rparr>"

definition ex_fbgemm_per_channel :: PackedLinearWeight where
  "ex_fbgemm_per_channel =
     \<lparr>w = \<lparr>numRows = 3, numCols = 2, pmat = [1, 2, 3, 4, 5, 6]\<rparr>,
      bias_fbgemm = None, w_scale = [5, 6], w_zp = [0, 1], q_scheme = kPerChannelAffine\<rparr>"

definition ex_heap :: heap where
  "ex_heap = [\<lparr>sizes = [2], payload = FloatData [11, 12], quantizer = None\<rparr>,
              \<lparr>sizes = [2, 3], payload = QInt8Data [0, 1, 2, 128, 127, 255],
                quantizer = Some (PerTensorAffineQuantizer 11 7)\<rparr>]"

definition ex_qnnp :: PackedLinearWeightsQnnp where
  "ex_qnnp = \<lparr>w_qnnp = [128, 129, 130, 0, 255, 127], orig_weight = Undefined,
     bias_qnnp = None, w_scales = Ref 0, w_zero_points = [7, 9], weight_sizes = [2, 3]\<rparr>"

definition ex_qnnp_cached :: PackedLinearWeightsQnnp where
  "ex_qnnp_cached = \<lparr>w_qnnp = [128, 129, 130, 0, 255, 127], orig_weight = Ref 1,
     bias_qnnp = None, w_scales = Ref 0, w_zero_points = [7, 9], weight_sizes = [2, 3]\<rparr>"

definition ex_fp16 :: PackedLinearWeightFp16 where
  "ex_fp16 = \<lparr>w_fp16 = \<lparr>numRows_fp16 = 2, numCols_fp16 = 3,
                          elem_fp16 = (\<lambda>r c. [[1, 2, 3], [4, 5, 6]] ! r ! c)\<rparr>,
     bias_fp16 = None\<rparr>"

definition ex_onednn :: PackedLinearWeightsOnednn where
  "ex_onednn = \<lparr>orig_weight_onednn = Ref 1, orig_bias_onednn = None\<rparr>"

section \<open>Properties\<close>

subsection \<open>Auxiliary facts\<close>

lemma sint_sub_128: "sint ((v::8 word) - 128) = uint v - 128"
proof -
  have "uint v < 256" using uint_bounded[of v] by simp
  moreover have "0 \<le> uint v" by simp
  ultimately show ?thesis
    by (simp add: sint_uint uint_sub_if' signed_take_bit_eq_take_bit_shift take_bit_eq_mod word_le_def split: if_splits)
qed

lemma length_concat_rows:
  "length (concat (map (\<lambda>c. map (f c) [0..<k]) [0..<n])) = n * k"
  by (induction n) simp_all

lemma nth_concat_rows:
  "c < n \<Longrightarrow> r < k \<Longrightarrow> concat (map (\<lambda>c. map (f c) [0..<k]) [0..<n]) ! (c * k + r) = f c r"
proof (induction n)
  case 0
  then show ?case by simp
next
  case (Suc n)
  show ?case
  proof (cases "c < n")
    case True
    then have "Suc c \<le> n" by simp
    then have "Suc c * k \<le> n * k" by (rule mult_le_mono1)
    with \<open>r < k\<close> have "c * k + r < n * k" by simp
    with True Suc show ?thesis by (simp add: nth_append length_concat_rows)
  next
    case False
    with \<open>c < Suc n\<close> have "c = n" by simp
    with \<open>r < k\<close> show ?thesis by (simp add: nth_append length_concat_rows)
  qed
qed

lemma fbgemm_per_tensor:
  assumes "q_scheme pw = kPerTensorAffine" and "w_scale pw = s # ss" and "w_zp pw = z # zs"
  shows "PackedLinearWeight_unpack rt pw h =
     Inr ((Ref (length h), bias_fbgemm pw),
          h @ [\<lparr>sizes = [numCols (w pw), numRows (w pw)],
                 payload = QInt8Data (fbgemm_unpack rt (w pw)),
                 quantizer = Some (PerTensorAffineQuantizer (float_to_double rt s) (scast z))\<rparr>])"
  using assms
  by (simp add: PackedLinearWeight_unpack_def at_empty_affine_quantized_def alloc_def
      write_int8_def nth_append Let_def)

lemma fbgemm_per_channel:
  assumes "q_scheme pw = kPerChannelAffine"
  shows "PackedLinearWeight_unpack rt pw h =
     Inr ((Ref (length h), bias_fbgemm pw),
          h @ [\<lparr>sizes = [numCols (w pw), numRows (w pw)],
                 payload = QInt8Data (fbgemm_unpack rt (w pw)),
                 quantizer = Some (PerChannelAffineQuantizer
                   (map (float_to_double rt) (w_scale pw)) (map scast (w_zp pw)) 0)\<rparr>])"
  using assms
  by (simp add: PackedLinearWeight_unpack_def at_empty_per_channel_affine_quantized_def alloc_def
      write_int8_def nth_append Let_def)

lemma fbgemm_other_scheme:
  assumes "q_scheme pw \<noteq> kPerTensorAffine" and "q_scheme pw \<noteq> kPerChannelAffine"
  shows "PackedLinearWeight_unpack rt pw h = Inl ScalarTypeMismatch"
  using assms by (simp add: PackedLinearWeight_unpack_def)

lemma fbgemm_per_tensor_empty:
  assumes "q_scheme pw = kPerTensorAffine" and "w_scale pw = [] \<or> w_zp pw = []"
  shows "PackedLinearWeight_unpack rt pw h = Inl UndefinedBehaviour"
  using assms by (auto simp add: PackedLinearWeight_unpack_def Let_def split: list.splits)

lemma fbgemm_success_cell:
  assumes "PackedLinearWeight_unpack rt pw h = Inr r"
  shows "\<exists>cell. sizes cell = [numCols (w pw), numRows (w pw)] \<and>
     (\<forall>h'. PackedLinearWeight_unpack rt pw h' =
        Inr ((Ref (length h'), bias_fbgemm pw), h' @ [cell]))"
proof (cases "q_scheme pw = kPerTensorAffine")
  case True
  show ?thesis
  proof (cases "w_scale pw = [] \<or> w_zp pw = []")
    case True
    with \<open>q_scheme pw = kPerTensorAffine\<close> assms show ?thesis
      by (simp add: fbgemm_per_tensor_empty)
  next
    case False
    then obtain s ss z zs where "w_scale pw = s # ss" and "w_zp pw = z # zs"
      by (auto simp: neq_Nil_conv)
    with True show ?thesis
      using fbgemm_per_tensor [of pw s ss z zs rt] by (intro exI conjI allI) auto
  qed
next
  case False
  show ?thesis
  proof (cases "q_scheme pw = kPerChannelAffine")
    case True
    then show ?thesis
      using fbgemm_per_channel [of pw rt] by (intro exI conjI allI) auto
  next
    case no: False
    with False assms show ?thesis by (simp add: fbgemm_other_scheme)
  qed
qed

lemma fp16_unpack_eq:
  "PackedLinearWeightFp16_unpack rt pw h =
     Inr ((Ref (Suc (length h)), bias_fp16 pw),
          h @ [\<lparr>sizes = [numCols_fp16 (w_fp16 pw), numRows_fp16 (w_fp16 pw)],
                 payload = HalfData (unpack_fp16 (w_fp16 pw) Transpose),
                 quantizer = None\<rparr>,
               \<lparr>sizes = [numCols_fp16 (w_fp16 pw), numRows_fp16 (w_fp16 pw)],
                 payload = FloatData (map (half_to_float rt) (unpack_fp16 (w_fp16 pw) Transpose)),
                 quantizer = None\<rparr>])"
  by (simp add: PackedLinearWeightFp16_unpack_def at_empty_def alloc_def write_half_def
      to_kFloat_def nth_append Let_def del: unpack_fp16.simps)

lemma qnnp_cached:
  assumes "defined (orig_weight pw)"
  shows "PackedLinearWeightsQnnp_unpack rt pw h = Inr ((orig_weight pw, bias_qnnp pw), h)"
  using assms by (simp add: PackedLinearWeightsQnnp_unpack_def)

lemma qnnp_reconstruct:
  assumes "orig_weight pw = Undefined"
    and "w_scales pw = Ref a" and "a < length h" and "payload (h ! a) = FloatData (s # ss)"
    and "w_zero_points pw = z # zs"
  shows "PackedLinearWeightsQnnp_unpack rt pw h =
     Inr ((Ref (Suc (length h)), bias_qnnp pw),
          h @ [\<lparr>sizes = weight_sizes pw,
                 payload = CharData (map (\<lambda>x. x - 128) (qnnp_unpackWeights rt (w_qnnp pw) (w_zero_points pw))),
                 quantizer = None\<rparr>,
               \<lparr>sizes = weight_sizes pw,
                 payload = QInt8Data (map (\<lambda>x. x - 128) (qnnp_unpackWeights rt (w_qnnp pw) (w_zero_points pw))),
                 quantizer = Some (PerTensorAffineQuantizer (float_to_double rt s) (ucast z))\<rparr>])"
  using assms
  by (simp add: PackedLinearWeightsQnnp_unpack_def at_empty_def alloc_def write_int8_def
      qscheme_def nth_append)

lemma qnnp_success_inv:
  assumes "orig_weight pw = Undefined"
    and "PackedLinearWeightsQnnp_unpack rt pw h = Inr r"
  shows "\<exists>a s ss z zs. w_scales pw = Ref a \<and> a < length h \<and> payload (h ! a) = FloatData (s # ss) \<and>
     w_zero_points pw = z # zs"
  using assms
  apply (cases "w_scales pw")
  apply (simp add: PackedLinearWeightsQnnp_unpack_def)
  apply (simp add: PackedLinearWeightsQnnp_unpack_def at_empty_def alloc_def write_int8_def
      qscheme_def nth_append Let_def split: if_splits sum.splits payload.splits list.splits prod.splits)
  done

lemma data_ptr_not_CheckFailed: "data_ptr ty t h \<noteq> Inl CheckFailed"
  by (cases t) (simp_all add: Let_def)

lemma data_ptr_not_NotQuantized: "data_ptr ty t h \<noteq> Inl NotQuantized"
  by (cases t) (simp_all add: Let_def)

lemma qnnp_never_NotQuantized: "PackedLinearWeightsQnnp_unpack rt pw h \<noteq> Inl NotQuantized"
  using data_ptr_not_NotQuantized [of kFloat "w_scales pw" h]
  by (auto simp add: PackedLinearWeightsQnnp_unpack_def at_empty_def alloc_def write_int8_def
      qscheme_def nth_append Let_def split: if_splits sum.splits payload.splits list.splits prod.splits option.splits Tensor.splits)

lemma qnnp_never_CheckFailed: "PackedLinearWeightsQnnp_unpack rt pw h \<noteq> Inl CheckFailed"
  using data_ptr_not_CheckFailed [of kFloat "w_scales pw" h]
  by (auto simp add: PackedLinearWeightsQnnp_unpack_def at_empty_def alloc_def write_int8_def
      qscheme_def nth_append Let_def split: if_splits sum.splits payload.splits list.splits prod.splits option.splits Tensor.splits)

lemma qscheme_make_per_tensor:
  "at_make_per_tensor_quantized_tensor t s z h = Inr (q, h') \<Longrightarrow> qscheme q h' = Inr kPerTensorAffine"
  by (auto simp: alloc_def qscheme_def split: option.splits)

lemma fbgemm_twice: "idempotent_at (PackedLinearWeight_unpack rt pw) h"
proof (cases "PackedLinearWeight_unpack rt pw h")
  case (Inl e)
  then show ?thesis by (simp add: idempotent_at_def)
next
  case (Inr r)
  from fbgemm_success_cell [OF Inr] obtain cell where
    c: "\<And>h'. PackedLinearWeight_unpack rt pw h' =
          Inr ((Ref (length h'), bias_fbgemm pw), h' @ [cell])"
    by blast
  show ?thesis
    by (simp add: idempotent_at_def c [of h] c [of "h @ [cell]"] preserved_def nth_append)
qed

lemma idempotent_atI:
  assumes "f h = Inr ((t1, b), h1)" and "f h1 = Inr ((t2, b), h2)"
    and "deref h2 t2 = deref h1 t1" and "deref h2 t1 = deref h1 t1"
    and "preserved h h1" and "preserved h1 h2"
  shows "idempotent_at f h"
  using assms by (simp add: idempotent_at_def)

lemma qnnp_twice: "idempotent_at (PackedLinearWeightsQnnp_unpack rt pw) h"
proof (cases "defined (orig_weight pw)")
  case True
  then show ?thesis by (simp add: idempotent_at_def qnnp_cached preserved_def)
next
  case False
  then have u: "orig_weight pw = Undefined" by (cases "orig_weight pw") simp_all
  show ?thesis
  proof (cases "PackedLinearWeightsQnnp_unpack rt pw h")
    case (Inl e)
    then show ?thesis by (simp add: idempotent_at_def)
  next
    case (Inr r)
    from qnnp_success_inv [OF u Inr] obtain a s ss z zs where
      a: "w_scales pw = Ref a" "a < length h" "payload (h ! a) = FloatData (s # ss)"
        "w_zero_points pw = z # zs"
      by blast
    define c1 where "c1 = \<lparr>sizes = weight_sizes pw,
        payload = CharData (map (\<lambda>x. x - 128)
                    (qnnp_unpackWeights rt (w_qnnp pw) (w_zero_points pw))),
        quantizer = None\<rparr>"
    define c2 where "c2 = \<lparr>sizes = weight_sizes pw,
        payload = QInt8Data (map (\<lambda>x. x - 128)
                    (qnnp_unpackWeights rt (w_qnnp pw) (w_zero_points pw))),
        quantizer = Some (PerTensorAffineQuantizer (float_to_double rt s) (ucast z))\<rparr>"
    define h1 where "h1 = h @ [c1, c2]"
    have r1: "PackedLinearWeightsQnnp_unpack rt pw h =
        Inr ((Ref (Suc (length h)), bias_qnnp pw), h1)"
      unfolding h1_def c1_def c2_def using qnnp_reconstruct [OF u a] .
    have a2: "a < length h1" using a(2) by (simp add: h1_def)
    have p2: "payload (h1 ! a) = FloatData (s # ss)"
      using a(2,3) by (simp add: h1_def nth_append)
    have r2: "PackedLinearWeightsQnnp_unpack rt pw h1 =
        Inr ((Ref (Suc (length h1)), bias_qnnp pw), h1 @ [c1, c2])"
      unfolding c1_def c2_def using qnnp_reconstruct [OF u a(1) a2 p2 a(4)] .
    show ?thesis
      by (rule idempotent_atI [OF r1 r2]) (simp_all add: h1_def preserved_def nth_append)
  qed
qed

lemma fp16_twice: "idempotent_at (PackedLinearWeightFp16_unpack rt pw) h"
  unfolding idempotent_at_def fp16_unpack_eq
  by (simp add: preserved_def nth_append del: unpack_fp16.simps)

lemma onednn_twice: "idempotent_at (\<lambda>h. Inr (PackedLinearWeightsOnednn_unpack pw h)) h"
  by (simp add: idempotent_at_def PackedLinearWeightsOnednn_unpack_def preserved_def)

section \<open>The claims\<close>

subsection \<open>Backend A: a scheme that is neither per-tensor nor per-channel affine\<close>

text \<open>
  Claim C1. When the stored scheme of a \<open>PackedLinearWeight\<close> is neither per-tensor
  affine nor per-channel affine, \<open>unpack()\<close> fails: no arm of the source allocates
  \<open>weight_origin\<close>, and taking the typed data pointer of the tensor that was never
  allocated raises. No tensor is returned and no scheme is chosen by default.
\<close>
theorem fbgemm_unpack_unrecognised_scheme_fails:
  assumes "q_scheme pw \<noteq> kPerTensorAffine" and "q_scheme pw \<noteq> kPerChannelAffine"
  shows "PackedLinearWeight_unpack rt pw h = Inl ScalarTypeMismatch"
proof -
  have "data_ptr kQInt8 Undefined h = Inl ScalarTypeMismatch" by simp
  with assms show ?thesis by (simp add: PackedLinearWeight_unpack_def)
qed

text \<open>A packed weight tagged with another scheme.\<close>

theorem fbgemm_unpack_unrecognised_scheme_fails_witness:
  "q_scheme (ex_fbgemm (kOtherScheme 2)) \<noteq> kPerTensorAffine \<and>
   q_scheme (ex_fbgemm (kOtherScheme 2)) \<noteq> kPerChannelAffine \<and>
   PackedLinearWeight_unpack ex_kernels (ex_fbgemm (kOtherScheme 2)) [] = Inl ScalarTypeMismatch"
  using fbgemm_unpack_unrecognised_scheme_fails [of "ex_fbgemm (kOtherScheme 2)" ex_kernels "[]"]
  by (simp add: ex_fbgemm_def)

subsection \<open>Backend B: more than one scale and zero point\<close>

text \<open>
  Against the wording of the claim on a second pair: with two scale and zero-point
  pairs stored and no original tensor retained, \<open>PackedLinearWeightsQnnp::unpack\<close>
  returns a per-tensor-affine tensor built from the first pair. It does not fail.
\<close>
theorem qnnp_two_pairs_not_rejected:
  "w_zero_points ex_qnnp = [7, 9] \<and>
   deref ex_heap (w_scales ex_qnnp) =
     Some \<lparr>sizes = [2], payload = FloatData [11, 12], quantizer = None\<rparr> \<and>
   orig_weight ex_qnnp = Undefined \<and>
   PackedLinearWeightsQnnp_unpack ex_kernels ex_qnnp ex_heap =
     Inr ((Ref 3, None),
          ex_heap @
          [\<lparr>sizes = [2, 3], payload = CharData [0, 1, 2, 128, 127, 255], quantizer = None\<rparr>,
           \<lparr>sizes = [2, 3], payload = QInt8Data [0, 1, 2, 128, 127, 255],
             quantizer = Some (PerTensorAffineQuantizer 11 7)\<rparr>])"
  by (simp add: ex_qnnp_def ex_heap_def ex_kernels_def PackedLinearWeightsQnnp_unpack_def
      at_empty_def alloc_def write_int8_def qscheme_def nth_append)

text \<open>
  Claim C2, as the code has it. On the reconstructed path, whenever at least one scale
  and one zero point are stored, \<open>unpack()\<close> returns a per-tensor-affine tensor whose
  metadata are the first pair, whatever follows it: further pairs are neither detected
  nor rejected.
\<close>

theorem qnnp_unpack_uses_first_pair:
  assumes "\<not> defined (orig_weight pw)"
    and "w_scales pw = Ref a" and "a < length h"
    and "payload (h ! a) = FloatData (s # ss)"
    and "w_zero_points pw = z # zs"
  shows "\<exists>t h' ti. PackedLinearWeightsQnnp_unpack rt pw h = Inr ((t, bias_qnnp pw), h') \<and>
     deref h' t = Some ti \<and>
     quantizer ti = Some (PerTensorAffineQuantizer (float_to_double rt s) (ucast z))"
proof -
  from assms(1) have u: "orig_weight pw = Undefined" by (cases "orig_weight pw") simp_all
  show ?thesis
    unfolding qnnp_reconstruct [OF u assms(2-5)] by (simp add: nth_append)
qed

text \<open>The packed weight with two pairs: the metadata are the first pair.\<close>

theorem qnnp_unpack_uses_first_pair_witness:
  "\<not> defined (orig_weight ex_qnnp) \<and> w_scales ex_qnnp = Ref 0 \<and> 0 < length ex_heap \<and>
   payload (ex_heap ! 0) = FloatData [11, 12] \<and> w_zero_points ex_qnnp = [7, 9] \<and>
   (\<exists>t h' ti. PackedLinearWeightsQnnp_unpack ex_kernels ex_qnnp ex_heap = Inr ((t, None), h') \<and>
      deref h' t = Some ti \<and> quantizer ti = Some (PerTensorAffineQuantizer 11 7))"
  using qnnp_unpack_uses_first_pair [of ex_qnnp 0 ex_heap 11 "[12]" 7 "[9]" ex_kernels]
  by (simp add: ex_qnnp_def ex_heap_def ex_kernels_def)


subsection \<open>Shape of the returned tensor\<close>

text \<open>
  Claim C3. The tensor returned by \<open>unpack()\<close> has the shape recorded with the packed
  buffer: \<open>[numCols, numRows]\<close> of the packed matrix for backend A, the stored
  \<open>weight_sizes\<close> for backend B, \<open>[ncols, nrows]\<close> for backend C, which always
  returns. Backend B records \<open>weight_sizes\<close> from the tensor it packs, so a retained
  original tensor has that shape; on that path the tensor is returned as it is.
\<close>

theorem unpack_shape:
  "(PackedLinearWeight_unpack rt pa h = Inr ((t, b), h') \<longrightarrow>
      map_option sizes (deref h' t) = Some [numCols (w pa), numRows (w pa)]) \<and>
   ((defined (orig_weight pb) \<longrightarrow>
       map_option sizes (deref h (orig_weight pb)) = Some (weight_sizes pb)) \<longrightarrow>
    PackedLinearWeightsQnnp_unpack rt pb h = Inr ((t, b), h') \<longrightarrow>
      map_option sizes (deref h' t) = Some (weight_sizes pb)) \<and>
   (\<exists>tc hc. PackedLinearWeightFp16_unpack rt pc h = Inr ((tc, bias_fp16 pc), hc) \<and>
      map_option sizes (deref hc tc) =
        Some [numCols_fp16 (w_fp16 pc), numRows_fp16 (w_fp16 pc)])"
proof (intro conjI impI)
  assume r: "PackedLinearWeight_unpack rt pa h = Inr ((t, b), h')"
  from fbgemm_success_cell [OF r] obtain cell where
    c: "sizes cell = [numCols (w pa), numRows (w pa)]"
      "PackedLinearWeight_unpack rt pa h = Inr ((Ref (length h), bias_fbgemm pa), h @ [cell])"
    by blast
  from r c(2) have "t = Ref (length h)" and "h' = h @ [cell]" by simp_all
  with c(1) show "map_option sizes (deref h' t) = Some [numCols (w pa), numRows (w pa)]"
    by simp
next
  assume inv: "defined (orig_weight pb) \<longrightarrow>
      map_option sizes (deref h (orig_weight pb)) = Some (weight_sizes pb)"
    and r: "PackedLinearWeightsQnnp_unpack rt pb h = Inr ((t, b), h')"
  show "map_option sizes (deref h' t) = Some (weight_sizes pb)"
  proof (cases "defined (orig_weight pb)")
    case True
    with r have "t = orig_weight pb" and "h' = h" by (simp_all add: qnnp_cached)
    with True inv show ?thesis by simp
  next
    case False
    then have u: "orig_weight pb = Undefined" by (cases "orig_weight pb") simp_all
    from qnnp_success_inv [OF u r] obtain a s ss z zs where
      a: "w_scales pb = Ref a" "a < length h" "payload (h ! a) = FloatData (s # ss)"
        "w_zero_points pb = z # zs"
      by blast
    from r show ?thesis
      unfolding qnnp_reconstruct [OF u a] by (auto simp: nth_append)
  qed
next
  show "\<exists>tc hc. PackedLinearWeightFp16_unpack rt pc h = Inr ((tc, bias_fp16 pc), hc) \<and>
      map_option sizes (deref hc tc) =
        Some [numCols_fp16 (w_fp16 pc), numRows_fp16 (w_fp16 pc)]"
    unfolding fp16_unpack_eq by (simp add: nth_append)
qed

text \<open>
  The shapes of the example weights: backend A, and backend B on the reconstructing
  and on the retaining path.
\<close>

theorem unpack_shape_witness:
  "PackedLinearWeight_unpack ex_kernels (ex_fbgemm kPerTensorAffine) [] =
     Inr ((Ref 0, None),
          [\<lparr>sizes = [2, 3], payload = QInt8Data [1, 2, 3, 4, 5, 6],
             quantizer = Some (PerTensorAffineQuantizer 5 0)\<rparr>]) \<and>
   map_option sizes
     (deref [\<lparr>sizes = [2, 3], payload = QInt8Data [1, 2, 3, 4, 5, 6],
               quantizer = Some (PerTensorAffineQuantizer 5 0)\<rparr>] (Ref 0)) = Some [2, 3] \<and>
   \<not> defined (orig_weight ex_qnnp) \<and>
   (\<exists>t b h'. PackedLinearWeightsQnnp_unpack ex_kernels ex_qnnp ex_heap = Inr ((t, b), h') \<and>
      map_option sizes (deref h' t) = Some [2, 3]) \<and>
   defined (orig_weight ex_qnnp_cached) \<and>
   map_option sizes (deref ex_heap (orig_weight ex_qnnp_cached)) =
     Some (weight_sizes ex_qnnp_cached) \<and>
   (\<exists>t b h'. PackedLinearWeightsQnnp_unpack ex_kernels ex_qnnp_cached ex_heap = Inr ((t, b), h') \<and>
      map_option sizes (deref h' t) = Some [2, 3])"
proof -
  have r: "PackedLinearWeight_unpack ex_kernels (ex_fbgemm kPerTensorAffine) [] =
     Inr ((Ref 0, None),
          [\<lparr>sizes = [2, 3], payload = QInt8Data [1, 2, 3, 4, 5, 6],
             quantizer = Some (PerTensorAffineQuantizer 5 0)\<rparr>])"
    by (simp add: ex_fbgemm_def ex_kernels_def PackedLinearWeight_unpack_def
        at_empty_affine_quantized_def alloc_def write_int8_def)
  from unpack_shape [THEN conjunct1, rule_format, OF r]
  have a: "map_option sizes
     (deref [\<lparr>sizes = [2, 3], payload = QInt8Data [1, 2, 3, 4, 5, 6],
               quantizer = Some (PerTensorAffineQuantizer 5 0)\<rparr>] (Ref 0)) = Some [2, 3]"
    by (simp add: ex_fbgemm_def)
  have n: "\<not> defined (orig_weight ex_qnnp)" by (simp add: ex_qnnp_def)
  then have i1: "defined (orig_weight ex_qnnp) \<longrightarrow>
      map_option sizes (deref ex_heap (orig_weight ex_qnnp)) = Some (weight_sizes ex_qnnp)"
    by simp
  obtain t b h' where
    q: "PackedLinearWeightsQnnp_unpack ex_kernels ex_qnnp ex_heap = Inr ((t, b), h')"
    by (simp add: ex_qnnp_def ex_heap_def ex_kernels_def PackedLinearWeightsQnnp_unpack_def
        at_empty_def alloc_def write_int8_def qscheme_def nth_append)
  from unpack_shape [THEN conjunct2, THEN conjunct1, THEN mp, OF i1, THEN mp, OF q]
  have b: "map_option sizes (deref h' t) = Some [2, 3]" by (simp add: ex_qnnp_def)
  have d: "defined (orig_weight ex_qnnp_cached)" by (simp add: ex_qnnp_cached_def)
  have s: "map_option sizes (deref ex_heap (orig_weight ex_qnnp_cached)) =
     Some (weight_sizes ex_qnnp_cached)"
    by (simp add: ex_qnnp_cached_def ex_heap_def)
  then have i2: "defined (orig_weight ex_qnnp_cached) \<longrightarrow>
      map_option sizes (deref ex_heap (orig_weight ex_qnnp_cached)) =
        Some (weight_sizes ex_qnnp_cached)"
    by simp
  obtain t' b' h'' where
    c: "PackedLinearWeightsQnnp_unpack ex_kernels ex_qnnp_cached ex_heap = Inr ((t', b'), h'')"
    by (simp add: ex_qnnp_cached_def PackedLinearWeightsQnnp_unpack_def)
  from unpack_shape [THEN conjunct2, THEN conjunct1, THEN mp, OF i2, THEN mp, OF c]
  have e: "map_option sizes (deref h'' t') = Some [2, 3]"
    by (simp add: ex_qnnp_cached_def)
  from r a n q b d s c e show ?thesis by (intro conjI exI) assumption+
qed

subsection \<open>Backend B: the offset of 128\<close>

text \<open>
  Claim C4. On the reconstructed path of \<open>PackedLinearWeightsQnnp::unpack\<close>, every
  element of the returned 8-bit tensor, read as a signed byte, is the byte written by
  the decoding routine, read as a value in \<open>[0, 255]\<close>, minus 128, exactly.
\<close>
theorem qnnp_offset_correction_exact:
  assumes "\<not> defined (orig_weight pw)"
    and "PackedLinearWeightsQnnp_unpack rt pw h = Inr ((t, b), h')"
  shows "\<exists>ti ys. deref h' t = Some ti \<and> payload ti = QInt8Data ys \<and>
     length ys = length (qnnp_unpackWeights rt (w_qnnp pw) (w_zero_points pw)) \<and>
     (\<forall>i < length ys.
        ys ! i = qnnp_unpackWeights rt (w_qnnp pw) (w_zero_points pw) ! i - 128 \<and>
        sint (ys ! i) = uint (qnnp_unpackWeights rt (w_qnnp pw) (w_zero_points pw) ! i) - 128)"
proof -
  from assms(1) have u: "orig_weight pw = Undefined" by (cases "orig_weight pw") simp_all
  from qnnp_success_inv [OF u assms(2)] obtain a s ss z zs where
    a: "w_scales pw = Ref a" "a < length h" "payload (h ! a) = FloatData (s # ss)"
      "w_zero_points pw = z # zs"
    by blast
  from assms(2) show ?thesis
    unfolding qnnp_reconstruct [OF u a] by (auto simp: nth_append sint_sub_128)
qed

text \<open>The bytes 128, 129, 130, 0, 255, 127 unpack to 0, 1, 2, -128, 127, -1.\<close>

theorem qnnp_offset_correction_exact_witness:
  "\<not> defined (orig_weight ex_qnnp) \<and>
   qnnp_unpackWeights ex_kernels (w_qnnp ex_qnnp) (w_zero_points ex_qnnp) =
     [128, 129, 130, 0, 255, 127] \<and>
   (\<exists>t b h' ti ys. PackedLinearWeightsQnnp_unpack ex_kernels ex_qnnp ex_heap = Inr ((t, b), h') \<and>
      deref h' t = Some ti \<and> payload ti = QInt8Data ys \<and>
      map sint ys = [0, 1, 2, - 128, 127, - 1])"
proof -
  have n: "\<not> defined (orig_weight ex_qnnp)" by (simp add: ex_qnnp_def)
  have d: "qnnp_unpackWeights ex_kernels (w_qnnp ex_qnnp) (w_zero_points ex_qnnp) =
     [128, 129, 130, 0, 255, 127]"
    by (simp add: ex_qnnp_def ex_kernels_def)
  obtain t b h' where r: "PackedLinearWeightsQnnp_unpack ex_kernels ex_qnnp ex_heap = Inr ((t, b), h')"
    by (simp add: ex_qnnp_def ex_heap_def ex_kernels_def PackedLinearWeightsQnnp_unpack_def
        at_empty_def alloc_def write_int8_def qscheme_def nth_append)
  from qnnp_offset_correction_exact [OF n r] obtain ti ys where
    y: "deref h' t = Some ti" "payload ti = QInt8Data ys"
    and l: "length ys = length [128, 129, 130, 0, 255, 127 :: 8 word]"
    and e: "\<forall>i < length ys.
        ys ! i = [128, 129, 130, 0, 255, 127 :: 8 word] ! i - 128 \<and>
        sint (ys ! i) = uint ([128, 129, 130, 0, 255, 127 :: 8 word] ! i) - 128"
    unfolding d by blast
  from l have y3: "length ys = 6" by simp
  from e have y4: "\<forall>i < length ys.
      sint (ys ! i) = uint ([128, 129, 130, 0, 255, 127 :: 8 word] ! i) - 128"
    by blast
  have "map sint ys = [0, 1, 2, - 128, 127, - 1]"
  proof (rule nth_equalityI)
    show "length (map sint ys) = length [0, 1, 2, - 128, 127, - 1 :: int]" using y3 by simp
  next
    fix i assume "i < length (map sint ys)"
    then have i: "i < 6" using y3 by simp
    then have "i = 0 \<or> i = 1 \<or> i = 2 \<or> i = 3 \<or> i = 4 \<or> i = 5" by arith
    with y3 y4 show "map sint ys ! i = [0, 1, 2, - 128, 127, - 1 :: int] ! i"
      by (auto simp: nth_Cons')
  qed
  with n d r y show ?thesis by (intro conjI exI) assumption+
qed


subsection \<open>Backend C: the widened transpose\<close>

text \<open>
  Claim C5. \<open>PackedLinearWeightFp16::unpack\<close> always returns. For a packed buffer that
  represents the matrix \<open>M\<close> with \<open>K\<close> rows and \<open>N\<close> columns, the returned tensor
  has shape \<open>[N, K]\<close>, 32-bit floating elements and no quantization metadata, and its
  element at row \<open>i\<close>, column \<open>j\<close> (offset \<open>i * K + j\<close> of the row-major buffer) is
  \<open>M[j][i]\<close> widened from 16 to 32 bits.
\<close>
theorem fp16_unpack_is_widened_transpose:
  "\<exists>t h' ti ys.
     PackedLinearWeightFp16_unpack rt pw h = Inr ((t, bias_fp16 pw), h') \<and>
     deref h' t = Some ti \<and>
     sizes ti = [numCols_fp16 (w_fp16 pw), numRows_fp16 (w_fp16 pw)] \<and>
     quantizer ti = None \<and>
     payload ti = FloatData ys \<and>
     length ys = numCols_fp16 (w_fp16 pw) * numRows_fp16 (w_fp16 pw) \<and>
     (\<forall>i < numCols_fp16 (w_fp16 pw). \<forall>j < numRows_fp16 (w_fp16 pw).
        ys ! (i * numRows_fp16 (w_fp16 pw) + j) = half_to_float rt (elem_fp16 (w_fp16 pw) j i))"
proof -
  let ?N = "numCols_fp16 (w_fp16 pw)" and ?K = "numRows_fp16 (w_fp16 pw)"
  let ?hs = "unpack_fp16 (w_fp16 pw) Transpose"
  have len: "length ?hs = ?N * ?K" by (simp add: length_concat_rows)
  have el: "map (half_to_float rt) ?hs ! (i * ?K + j) = half_to_float rt (elem_fp16 (w_fp16 pw) j i)"
    if "i < ?N" and "j < ?K" for i j
  proof -
    from that have "Suc i * ?K \<le> ?N * ?K" by (intro mult_le_mono1) simp
    with that have "i * ?K + j < length ?hs" unfolding len by simp
    then have "map (half_to_float rt) ?hs ! (i * ?K + j) = half_to_float rt (?hs ! (i * ?K + j))"
      by (rule nth_map)
    also have "?hs ! (i * ?K + j) = elem_fp16 (w_fp16 pw) j i"
      using that by (simp add: nth_concat_rows)
    finally show ?thesis .
  qed
  show ?thesis
    unfolding fp16_unpack_eq
    using len el by (simp add: nth_append del: unpack_fp16.simps)
qed

text \<open>The matrix with rows 1 2 3 and 4 5 6 unpacks to the rows 1 4, 2 5 and 3 6.\<close>

theorem fp16_unpack_is_widened_transpose_witness:
  "\<exists>t h' ti ys. PackedLinearWeightFp16_unpack ex_kernels ex_fp16 [] = Inr ((t, None), h') \<and>
     deref h' t = Some ti \<and> sizes ti = [3, 2] \<and> quantizer ti = None \<and>
     payload ti = FloatData ys \<and> ys = [1, 4, 2, 5, 3, 6]"
proof -
  from fp16_unpack_is_widened_transpose [of ex_kernels ex_fp16 "[]"]
  obtain t h' ti ys where
    r: "PackedLinearWeightFp16_unpack ex_kernels ex_fp16 [] = Inr ((t, None), h')"
      "deref h' t = Some ti" "sizes ti = [3, 2]" "quantizer ti = None"
      "payload ti = FloatData ys" "length ys = 6"
    and e: "\<forall>i < 3. \<forall>j < 2. ys ! (i * 2 + j) = ucast ([[1, 2, 3], [4, 5, 6 :: 16 word]] ! j ! i)"
    by (auto simp: ex_fp16_def ex_kernels_def)
  have "ys = [1, 4, 2, 5, 3, 6]"
  proof (rule nth_equalityI)
    show "length ys = length [1, 4, 2, 5, 3, 6 :: 32 word]" using r(6) by simp
  next
    fix k assume "k < length ys"
    then have "k = 0 * 2 + 0 \<or> k = 0 * 2 + 1 \<or> k = 1 * 2 + 0 \<or> k = 1 * 2 + 1 \<or>
        k = 2 * 2 + 0 \<or> k = 2 * 2 + 1"
      using r(6) by arith
    then show "ys ! k = [1, 4, 2, 5, 3, 6 :: 32 word] ! k"
      using e [rule_format, of 0 0] e [rule_format, of 0 1] e [rule_format, of 1 0]
        e [rule_format, of 1 1] e [rule_format, of 2 0] e [rule_format, of 2 1]
      by (auto simp: nth_Cons')
  qed
  with r show ?thesis by (intro exI conjI) assumption+
qed

subsection \<open>The retained tensor is returned as it is\<close>

text \<open>
  Claim C6. \<open>PackedLinearWeightsOnednn::unpack\<close> always, and
  \<open>PackedLinearWeightsQnnp::unpack\<close> whenever the original tensor was retained, return
  the retained weight handle and the bias handle themselves and leave the store as it
  was: nothing is allocated, copied or written.
\<close>
theorem cached_unpack_returns_retained:
  "PackedLinearWeightsOnednn_unpack pd h = ((orig_weight_onednn pd, orig_bias_onednn pd), h) \<and>
   (defined (orig_weight pb) \<longrightarrow>
      PackedLinearWeightsQnnp_unpack rt pb h = Inr ((orig_weight pb, bias_qnnp pb), h))"
  by (simp add: PackedLinearWeightsOnednn_unpack_def qnnp_cached)

text \<open>The retained tensor of the example weights.\<close>

theorem cached_unpack_returns_retained_witness:
  "defined (orig_weight ex_qnnp_cached) \<and>
   PackedLinearWeightsQnnp_unpack ex_kernels ex_qnnp_cached ex_heap = Inr ((Ref 1, None), ex_heap) \<and>
   PackedLinearWeightsOnednn_unpack ex_onednn ex_heap = ((Ref 1, None), ex_heap)"
  using cached_unpack_returns_retained [of ex_onednn ex_heap ex_qnnp_cached ex_kernels]
  by (simp add: ex_qnnp_cached_def ex_onednn_def)

subsection \<open>Backend A: per-channel metadata\<close>

text \<open>
  Claim C7. For a per-channel \<open>PackedLinearWeight\<close>, whose stored scale and zero-point
  arrays hold one entry per output channel (length \<open>N = numCols\<close>), \<open>unpack()\<close>
  returns a tensor whose metadata carry a scales array and a zero-points array of equal
  length, that length being \<open>N\<close>, and the axis 0.
\<close>

theorem fbgemm_per_channel_metadata:
  assumes "q_scheme pw = kPerChannelAffine"
    and "length (w_scale pw) = numCols (w pw)"
    and "length (w_zp pw) = numCols (w pw)"
  shows "\<exists>t h' ti ss zs.
     PackedLinearWeight_unpack rt pw h = Inr ((t, bias_fbgemm pw), h') \<and>
     deref h' t = Some ti \<and>
     quantizer ti = Some (PerChannelAffineQuantizer ss zs 0) \<and>
     length ss = length zs \<and> length ss = numCols (w pw)"
  unfolding fbgemm_per_channel [OF assms(1)] using assms(2,3) by (simp add: nth_append)

text \<open>Two output channels, two stored pairs, two pairs in the metadata.\<close>

theorem fbgemm_per_channel_metadata_witness:
  "q_scheme ex_fbgemm_per_channel = kPerChannelAffine \<and>
   length (w_scale ex_fbgemm_per_channel) = numCols (w ex_fbgemm_per_channel) \<and>
   length (w_zp ex_fbgemm_per_channel) = numCols (w ex_fbgemm_per_channel) \<and>
   (\<exists>t h' ti ss zs.
     PackedLinearWeight_unpack ex_kernels ex_fbgemm_per_channel [] = Inr ((t, None), h') \<and>
     deref h' t = Some ti \<and>
     quantizer ti = Some (PerChannelAffineQuantizer ss zs 0) \<and>
     length ss = 2 \<and> length zs = 2)"
proof -
  have q: "q_scheme ex_fbgemm_per_channel = kPerChannelAffine"
    and l1: "length (w_scale ex_fbgemm_per_channel) = numCols (w ex_fbgemm_per_channel)"
    and l2: "length (w_zp ex_fbgemm_per_channel) = numCols (w ex_fbgemm_per_channel)"
    by (simp_all add: ex_fbgemm_per_channel_def)
  from fbgemm_per_channel_metadata [OF q l1 l2, of ex_kernels "[]"]
  obtain t h' ti ss zs where
    "PackedLinearWeight_unpack ex_kernels ex_fbgemm_per_channel [] = Inr ((t, None), h')"
    "deref h' t = Some ti" "quantizer ti = Some (PerChannelAffineQuantizer ss zs 0)"
    "length ss = 2" "length zs = 2"
    by (auto simp: ex_fbgemm_per_channel_def)
  with q l1 l2 show ?thesis by (intro conjI exI) assumption+
qed

subsection \<open>Calling unpack twice\<close>

text \<open>
  Claim C8. For each of the four backends, a second call of \<open>unpack()\<close> after one
  that returned returns a tensor with the same shape, elements and metadata and the
  same bias; it does not disturb the first result, and neither call changes a tensor
  that existed before it (the cached weight, the scales, the bias).
\<close>
theorem unpack_twice_identical:
  "idempotent_at (PackedLinearWeight_unpack rt pa) h \<and>
   idempotent_at (PackedLinearWeightsQnnp_unpack rt pb) h \<and>
   idempotent_at (PackedLinearWeightFp16_unpack rt pc) h \<and>
   idempotent_at (\<lambda>h. Inr (PackedLinearWeightsOnednn_unpack pd h)) h"
  by (intro conjI fbgemm_twice qnnp_twice fp16_twice onednn_twice)

text \<open>The example weights, the reconstructing call of backend B among them.\<close>

theorem unpack_twice_identical_witness:
  "PackedLinearWeightsQnnp_unpack ex_kernels ex_qnnp ex_heap =
     Inr ((Ref 3, None),
          ex_heap @
          [\<lparr>sizes = [2, 3], payload = CharData [0, 1, 2, 128, 127, 255], quantizer = None\<rparr>,
           \<lparr>sizes = [2, 3], payload = QInt8Data [0, 1, 2, 128, 127, 255],
             quantizer = Some (PerTensorAffineQuantizer 11 7)\<rparr>]) \<and>
   idempotent_at (PackedLinearWeight_unpack ex_kernels (ex_fbgemm kPerTensorAffine)) ex_heap \<and>
   idempotent_at (PackedLinearWeightsQnnp_unpack ex_kernels ex_qnnp) ex_heap \<and>
   idempotent_at (PackedLinearWeightFp16_unpack ex_kernels ex_fp16) ex_heap \<and>
   idempotent_at (\<lambda>h. Inr (PackedLinearWeightsOnednn_unpack ex_onednn h)) ex_heap"
proof -
  have "PackedLinearWeightsQnnp_unpack ex_kernels ex_qnnp ex_heap =
     Inr ((Ref 3, None),
          ex_heap @
          [\<lparr>sizes = [2, 3], payload = CharData [0, 1, 2, 128, 127, 255], quantizer = None\<rparr>,
           \<lparr>sizes = [2, 3], payload = QInt8Data [0, 1, 2, 128, 127, 255],
             quantizer = Some (PerTensorAffineQuantizer 11 7)\<rparr>])"
    by (simp add: ex_qnnp_def ex_heap_def ex_kernels_def PackedLinearWeightsQnnp_unpack_def
      at_empty_def alloc_def write_int8_def qscheme_def nth_append)
  with unpack_twice_identical [of ex_kernels "ex_fbgemm kPerTensorAffine" ex_heap ex_qnnp
      ex_fp16 ex_onednn]
  show ?thesis by (intro conjI) simp_all
qed

subsection \<open>Backend B: the check of the result's scheme\<close>

text \<open>
  Claim C9. The tensor made by \<open>at::_make_per_tensor_quantized_tensor\<close> carries the
  per-tensor-affine scheme, so the \<open>TORCH_CHECK\<close> of
  \<open>PackedLinearWeightsQnnp::unpack\<close> never fails: the method never ends in
  \<open>CheckFailed\<close>, nor does reading the scheme of that tensor raise.
\<close>
theorem qnnp_postcondition_check_never_fails:
  "PackedLinearWeightsQnnp_unpack rt pw h \<noteq> Inl CheckFailed \<and>
   PackedLinearWeightsQnnp_unpack rt pw h \<noteq> Inl NotQuantized \<and>
   (at_make_per_tensor_quantized_tensor t s z h = Inr (q, h') \<longrightarrow>
      qscheme q h' = Inr kPerTensorAffine)"
  by (simp add: qnnp_never_CheckFailed qnnp_never_NotQuantized qscheme_make_per_tensor
      del: at_make_per_tensor_quantized_tensor.simps)

text \<open>The example weight, and the wrapping of an example tensor.\<close>

theorem qnnp_postcondition_check_never_fails_witness:
  "PackedLinearWeightsQnnp_unpack ex_kernels ex_qnnp ex_heap \<noteq> Inl CheckFailed \<and>
   at_make_per_tensor_quantized_tensor (Ref 1) 11 7 ex_heap =
     Inr (Ref 2, ex_heap @ [\<lparr>sizes = [2, 3], payload = QInt8Data [0, 1, 2, 128, 127, 255],
                              quantizer = Some (PerTensorAffineQuantizer 11 7)\<rparr>]) \<and>
   qscheme (Ref 2) (ex_heap @ [\<lparr>sizes = [2, 3], payload = QInt8Data [0, 1, 2, 128, 127, 255],
                              quantizer = Some (PerTensorAffineQuantizer 11 7)\<rparr>]) =
     Inr kPerTensorAffine"
proof -
  have m: "at_make_per_tensor_quantized_tensor (Ref 1) 11 7 ex_heap =
     Inr (Ref 2, ex_heap @ [\<lparr>sizes = [2, 3], payload = QInt8Data [0, 1, 2, 128, 127, 255],
                              quantizer = Some (PerTensorAffineQuantizer 11 7)\<rparr>])"
    by (simp add: ex_heap_def alloc_def)
  from qnnp_postcondition_check_never_fails [of ex_kernels ex_qnnp ex_heap "Ref 1" 11 7]
  have "PackedLinearWeightsQnnp_unpack ex_kernels ex_qnnp ex_heap \<noteq> Inl CheckFailed"
    and "\<And>q h'. at_make_per_tensor_quantized_tensor (Ref 1) 11 7 ex_heap = Inr (q, h') \<Longrightarrow>
      qscheme q h' = Inr kPerTensorAffine"
    by blast+
  with m show ?thesis by (intro conjI) auto
qed

subsection \<open>Backend B: the metadata come from index 0\<close>

text \<open>
  Claim C10. When the reconstructed path of \<open>PackedLinearWeightsQnnp::unpack\<close>
  returns, the returned tensor's metadata are the scale at index 0 of \<open>w_scales\<close>
  and the zero point at index 0 of \<open>w_zero_points\<close>; with any other elements after
  index 0 the call returns the same metadata.
\<close>
theorem qnnp_metadata_from_index_0:
  assumes "\<not> defined (orig_weight pw)"
    and "PackedLinearWeightsQnnp_unpack rt pw h = Inr ((t, b), h')"
  shows "\<exists>a s ss z zs ti.
     w_scales pw = Ref a \<and> a < length h \<and> payload (h ! a) = FloatData (s # ss) \<and>
     w_zero_points pw = z # zs \<and>
     deref h' t = Some ti \<and>
     quantizer ti = Some (PerTensorAffineQuantizer (float_to_double rt s) (ucast z)) \<and>
     (\<forall>ss' zs'. \<exists>t2 h2 ti2.
        PackedLinearWeightsQnnp_unpack rt (pw\<lparr>w_zero_points := z # zs'\<rparr>)
          (h[a := (h ! a)\<lparr>payload := FloatData (s # ss')\<rparr>]) = Inr ((t2, b), h2) \<and>
        deref h2 t2 = Some ti2 \<and> quantizer ti2 = quantizer ti)"
proof -
  from assms(1) have u: "orig_weight pw = Undefined" by (cases "orig_weight pw") simp_all
  from qnnp_success_inv [OF u assms(2)] obtain a s ss z zs where
    a: "w_scales pw = Ref a" "a < length h" "payload (h ! a) = FloatData (s # ss)"
      "w_zero_points pw = z # zs"
    by blast
  have r: "deref h' t = Some \<lparr>sizes = weight_sizes pw,
                 payload = QInt8Data (map (\<lambda>x. x - 128) (qnnp_unpackWeights rt (w_qnnp pw) (w_zero_points pw))),
                 quantizer = Some (PerTensorAffineQuantizer (float_to_double rt s) (ucast z))\<rparr>"
    and b: "b = bias_qnnp pw"
    using assms(2) unfolding qnnp_reconstruct [OF u a] by (auto simp: nth_append)
  have other: "\<exists>t2 h2 ti2.
        PackedLinearWeightsQnnp_unpack rt (pw\<lparr>w_zero_points := z # zs'\<rparr>)
          (h[a := (h ! a)\<lparr>payload := FloatData (s # ss')\<rparr>]) = Inr ((t2, b), h2) \<and>
        deref h2 t2 = Some ti2 \<and>
        quantizer ti2 = Some (PerTensorAffineQuantizer (float_to_double rt s) (ucast z))"
    for ss' zs'
  proof -
    let ?pw = "pw\<lparr>w_zero_points := z # zs'\<rparr>"
    let ?h = "h[a := (h ! a)\<lparr>payload := FloatData (s # ss')\<rparr>]"
    have "PackedLinearWeightsQnnp_unpack rt ?pw ?h = Inr ((Ref (Suc (length ?h)), bias_qnnp ?pw),
          ?h @ [\<lparr>sizes = weight_sizes ?pw,
                 payload = CharData (map (\<lambda>x. x - 128) (qnnp_unpackWeights rt (w_qnnp ?pw) (w_zero_points ?pw))),
                 quantizer = None\<rparr>,
               \<lparr>sizes = weight_sizes ?pw,
                 payload = QInt8Data (map (\<lambda>x. x - 128) (qnnp_unpackWeights rt (w_qnnp ?pw) (w_zero_points ?pw))),
                 quantizer = Some (PerTensorAffineQuantizer (float_to_double rt s) (ucast z))\<rparr>])"
    proof (rule qnnp_reconstruct [where a = a and ss = ss' and zs = zs'])
      show "orig_weight ?pw = Undefined" using u by simp
      show "w_scales ?pw = Ref a" using a(1) by simp
      show "a < length ?h" using a(2) by simp
      show "payload (?h ! a) = FloatData (s # ss')" using a(2) by simp
      show "w_zero_points ?pw = z # zs'" by simp
    qed
    then show ?thesis by (simp add: b nth_append)
  qed
  from a r other show ?thesis by (intro exI conjI) (assumption | simp)+
qed

text \<open>The packed weight with the pairs (11, 7) and (12, 9).\<close>

theorem qnnp_metadata_from_index_0_witness:
  "\<not> defined (orig_weight ex_qnnp) \<and>
   (\<exists>t b h' ti. PackedLinearWeightsQnnp_unpack ex_kernels ex_qnnp ex_heap = Inr ((t, b), h') \<and>
      deref h' t = Some ti \<and> quantizer ti = Some (PerTensorAffineQuantizer 11 7))"
proof -
  have n: "\<not> defined (orig_weight ex_qnnp)" by (simp add: ex_qnnp_def)
  obtain t b h' where r: "PackedLinearWeightsQnnp_unpack ex_kernels ex_qnnp ex_heap = Inr ((t, b), h')"
    by (simp add: ex_qnnp_def ex_heap_def ex_kernels_def PackedLinearWeightsQnnp_unpack_def
        at_empty_def alloc_def write_int8_def qscheme_def nth_append)
  from qnnp_metadata_from_index_0 [OF n r] obtain ti where
    "deref h' t = Some ti" "quantizer ti = Some (PerTensorAffineQuantizer 11 7)"
    by (auto simp: ex_qnnp_def ex_heap_def ex_kernels_def)
  with n r show ?thesis by (intro exI conjI) assumption+
qed

end
